theory Spec2Isabelle
  imports Main
begin

section \<open>The medicine page: component state\<close>

text \<open>
  The page component \<open>Home\<close> keeps seven state cells (\<open>useState\<close>): \<open>file\<close>, \<open>text\<close>,
  \<open>analysis\<close>, \<open>question\<close>, \<open>followUp\<close>, \<open>loading\<close> and \<open>uploadComplete\<close>.  The cells
  \<open>file\<close> and \<open>text\<close> are named \<open>file'\<close> and \<open>text'\<close> here.  A JavaScript string is a
  \<open>string\<close>; a cell that can hold \<open>undefined\<close> (a field missing from a parsed response)
  is a \<open>string option\<close>, with \<open>None\<close> for \<open>undefined\<close>; \<open>file\<close> is \<open>None\<close> for \<open>null\<close> and \<open>undefined\<close>.
\<close>

record jsfile =
  fname :: string
  ftype :: string
  fdata :: "nat list"

record state =
  file' :: "jsfile option"
  text' :: "string option"
  analysis :: "string option"
  question :: string
  followUp :: string
  loading :: bool
  uploadComplete :: bool

definition initial :: state where
  "initial = \<lparr>file' = None, text' = Some [], analysis = Some [], question = [],
     followUp = [], loading = False, uploadComplete = False\<rparr>"

text \<open>JavaScript truthiness of a cell: \<open>undefined\<close> and the empty string are falsy.\<close>

definition truthy :: "string option \<Rightarrow> bool" where
  "truthy v = (case v of None \<Rightarrow> False | Some t \<Rightarrow> t \<noteq> [])"

section \<open>Requests, responses and effects\<close>

text \<open>
  The two \<open>fetch\<close> calls: the multipart upload of the selected file, and the
  \<open>generateContent\<close> call, which carries the API key (in the URL) and the prompt; its
  generation parameters are constants of the source and are left out.
\<close>

datatype request = UploadReq jsfile | GenerateReq string string

text \<open>
  What a handler does besides updating state: it issues a \<open>fetch\<close> or shows an \<open>alert\<close>.
  Console output is not modelled.
\<close>

datatype effect = Fetch request | Alert string

text \<open>
  How an awaited \<open>fetch\<close> settles: the promise rejects with an error message; the
  response has \<open>res.ok\<close> false (a status outside 200 to 299, with its body text);
  \<open>res.ok\<close> is true but reading the body throws with a message (it is not JSON, or it
  is \<open>null\<close> and has no fields to read); or the body parses to a value.
\<close>

datatype 'd settled =
    Rejected string
  | NotOk nat string
  | Unparsable string
  | Parsed 'd

text \<open>The parsed body of the upload endpoint: \<open>data.text\<close> and \<open>data.analysis\<close>, each absent or a string.\<close>

datatype upload_data = UploadData (data_text: "string option") (data_analysis: "string option")

text \<open>The parsed body of \<open>generateContent\<close>, as far as the handler reads it.\<close>

datatype part = Part (part_text: "string option")
datatype content = Content (parts: "part list option")
datatype candidate = Candidate (content: "content option")
datatype gemini_data = GeminiData (candidates: "candidate list option")

section \<open>handleUpload\<close>

text \<open>
  An \<open>async\<close> handler is split where it awaits the network: \<open>_start\<close> runs up to the
  \<open>fetch\<close>, \<open>_finish\<close> runs from the settled \<open>fetch\<close> to the end.  The second part only
  calls setters, so it acts on whatever the state is when the response arrives.
\<close>

definition handleUpload_start :: "state \<Rightarrow> state \<times> effect list" where
  "handleUpload_start s =
     (case file' s of
        None \<Rightarrow> (s, [])
      | Some f \<Rightarrow> (s\<lparr>loading := True, uploadComplete := False\<rparr>, [Fetch (UploadReq f)]))"

definition upload_error :: "upload_data settled \<Rightarrow> string" where
  "upload_error r =
     (case r of
        Rejected m \<Rightarrow> m
      | NotOk st body \<Rightarrow> ''Upload failed''
      | Unparsable m \<Rightarrow> m
      | Parsed d \<Rightarrow> [])"

definition handleUpload_finish :: "upload_data settled \<Rightarrow> state \<Rightarrow> state \<times> effect list" where
  "handleUpload_finish r s =
     (case r of
        Parsed d \<Rightarrow>
          (s\<lparr>text' := data_text d, analysis := data_analysis d, followUp := [],
             uploadComplete := True, loading := False\<rparr>, [])
      | _ \<Rightarrow> (s\<lparr>loading := False\<rparr>, [Alert (''Upload failed: '' @ upload_error r)]))"

section \<open>askFollowUp\<close>

definition newline :: char where
  "newline = CHR 0x0A"

definition build_prompt :: "string \<Rightarrow> string \<Rightarrow> string" where
  "build_prompt t q =
     ''The user uploaded this medicine content:'' @ [newline] @ t @ [newline]
       @ ''Now they ask: '' @ q @ [newline] @ ''Give a clear medical answer.''"

definition key_missing :: string where
  "key_missing = ''Gemini API key not found. Please check your environment variables.''"

text \<open>
  The first argument is \<open>process.env.NEXT_PUBLIC_GEMINI_API_KEY\<close>.  With no key the
  handler throws before the \<open>fetch\<close>, so it runs to its end at once.
\<close>

definition askFollowUp_start :: "string option \<Rightarrow> state \<Rightarrow> state \<times> effect list" where
  "askFollowUp_start apiKey s =
     (if question s = [] \<or> \<not> truthy (text' s) then (s, [])
      else if \<not> truthy apiKey
        then (s\<lparr>loading := False\<rparr>, [Alert (''Follow-up failed: '' @ key_missing)])
      else (s\<lparr>loading := True\<rparr>,
            [Fetch (GenerateReq (the apiKey) (build_prompt (the (text' s)) (question s)))]))"

text \<open>Decimal digits of a number, for \<open>res.status\<close> inside a template literal.\<close>

function string_of_nat :: "nat \<Rightarrow> string" where
  "string_of_nat n =
     (if n < 10 then [char_of (48 + n)]
      else string_of_nat (n div 10) @ [char_of (48 + n mod 10)])"
  by pat_completeness auto
termination
  by (relation "measure (\<lambda>n. n)") auto

definition followup_error :: "gemini_data settled \<Rightarrow> string" where
  "followup_error r =
     (case r of
        Rejected m \<Rightarrow> m
      | NotOk st body \<Rightarrow> ''HTTP error! status: '' @ string_of_nat st @ '', message: '' @ body
      | Unparsable m \<Rightarrow> m
      | Parsed d \<Rightarrow> [])"

text \<open>\<open>data.candidates?.[0]?.content?.parts?.[0]?.text\<close>\<close>

definition reply_path :: "gemini_data \<Rightarrow> string option" where
  "reply_path d =
     (case candidates d of
        None \<Rightarrow> None
      | Some cs \<Rightarrow>
          (case cs of
             [] \<Rightarrow> None
           | c # _ \<Rightarrow>
               (case content c of
                  None \<Rightarrow> None
                | Some ct \<Rightarrow>
                    (case parts ct of
                       None \<Rightarrow> None
                     | Some ps \<Rightarrow> (case ps of [] \<Rightarrow> None | p # _ \<Rightarrow> part_text p)))))"

definition no_response :: string where
  "no_response = ''No response received''"

definition reply :: "gemini_data \<Rightarrow> string" where
  "reply d = (if truthy (reply_path d) then the (reply_path d) else no_response)"

definition askFollowUp_finish :: "gemini_data settled \<Rightarrow> state \<Rightarrow> state \<times> effect list" where
  "askFollowUp_finish r s =
     (case r of
        Parsed d \<Rightarrow> (s\<lparr>followUp := reply d, loading := False\<rparr>, [])
      | _ \<Rightarrow>
          (s\<lparr>loading := False\<rparr>,
           [Alert (''Follow-up failed: '' @
              (if followup_error r = [] then ''Unknown error'' else followup_error r))]))"

section \<open>handleFileChange\<close>

text \<open>The argument is \<open>e.target.files\<close>; \<open>files[0]\<close> of an empty list is \<open>undefined\<close>.\<close>

definition handleFileChange :: "jsfile list \<Rightarrow> state \<Rightarrow> state" where
  "handleFileChange files s =
     s\<lparr>file' := (case files of [] \<Rightarrow> None | f # _ \<Rightarrow> Some f),
       text' := Some [], analysis := Some [], followUp := [], uploadComplete := False\<rparr>"

section \<open>What the page renders\<close>

text \<open>\<open>String.prototype.trim\<close> on the code units below 256.\<close>

definition is_space :: "char \<Rightarrow> bool" where
  "is_space c = (of_char c \<in> {9, 10, 11, 12, 13, 32, 160 :: nat})"

definition trim :: "string \<Rightarrow> string" where
  "trim q = rev (dropWhile is_space (rev (dropWhile is_space q)))"

text \<open>
  The \<open>disabled\<close> attributes of the two buttons and of the question field, as the render
  of the current state computes them.
\<close>

definition uploadButton_disabled :: "state \<Rightarrow> bool" where
  "uploadButton_disabled s = (file' s = None \<or> loading s)"

definition askButton_disabled :: "state \<Rightarrow> bool" where
  "askButton_disabled s = (\<not> uploadComplete s \<or> trim (question s) = [] \<or> loading s)"

definition questionInput_disabled :: "state \<Rightarrow> bool" where
  "questionInput_disabled s = (\<not> uploadComplete s)"

text \<open>The results section is rendered under \<open>text &&\<close>, the answer inside it under \<open>followUp &&\<close>.\<close>

definition results_shown :: "state \<Rightarrow> bool" where
  "results_shown s = truthy (text' s)"

definition followUp_shown :: "state \<Rightarrow> bool" where
  "followUp_shown s = (results_shown s \<and> followUp s \<noteq> [])"

section \<open>Events\<close>

text \<open>
  What can happen to the page: the user picks files, types into the question field,
  clicks a button (a disabled button or field dispatches nothing, and the question field
  exists only inside the results section), or a pending \<open>fetch\<close> settles.  Which requests are pending is not recorded: a settle event is the arrival of
  one response, and the second half of the handler runs on the state of that moment.
\<close>

datatype event =
    SelectFiles "jsfile list"
  | TypeQuestion string
  | ClickUpload
  | ClickAsk
  | UploadSettles "upload_data settled"
  | FollowUpSettles "gemini_data settled"

fun step :: "string option \<Rightarrow> event \<Rightarrow> state \<Rightarrow> state \<times> effect list" where
  "step k (SelectFiles fs) s = (handleFileChange fs s, [])"
| "step k (TypeQuestion q) s =
     (if \<not> results_shown s \<or> questionInput_disabled s then (s, []) else (s\<lparr>question := q\<rparr>, []))"
| "step k ClickUpload s = (if uploadButton_disabled s then (s, []) else handleUpload_start s)"
| "step k ClickAsk s = (if askButton_disabled s then (s, []) else askFollowUp_start k s)"
| "step k (UploadSettles r) s = handleUpload_finish r s"
| "step k (FollowUpSettles r) s = askFollowUp_finish r s"

fun run :: "string option \<Rightarrow> event list \<Rightarrow> state \<Rightarrow> state \<times> effect list" where
  "run k [] s = (s, [])"
| "run k (e # es) s =
     (case step k e s of (s1, out1) \<Rightarrow> (case run k es s1 of (s2, out2) \<Rightarrow> (s2, out1 @ out2)))"

text \<open>The events that come from the user, as opposed to a response arriving.\<close>

fun user_event :: "event \<Rightarrow> bool" where
  "user_event (UploadSettles r) = False"
| "user_event (FollowUpSettles r) = False"
| "user_event e = True"

text \<open>The session phase that the two flags encode.\<close>

datatype phase = Idle | InFlight | Analyzed

definition sessionPhase :: "state \<Rightarrow> phase" where
  "sessionPhase s = (if loading s then InFlight else if uploadComplete s then Analyzed else Idle)"

text \<open>A settled \<open>fetch\<close> that sends the handler into its \<open>catch\<close> block.\<close>

definition failed :: "'d settled \<Rightarrow> bool" where
  "failed r = (case r of Parsed d \<Rightarrow> False | _ \<Rightarrow> True)"

section \<open>Example inputs\<close>

definition pill_photo :: jsfile where
  "pill_photo = \<lparr>fname = ''pill.png'', ftype = ''image/png'', fdata = [137, 80, 78, 71]\<rparr>"

definition leaflet_pdf :: jsfile where
  "leaflet_pdf = \<lparr>fname = ''leaflet.pdf'', ftype = ''application/pdf'', fdata = [37, 80, 68, 70]\<rparr>"

definition selected :: state where
  "selected = initial\<lparr>file' := Some pill_photo\<rparr>"

definition analyzed :: state where
  "analyzed = \<lparr>file' = Some pill_photo, text' = Some ''BP: take 1 tablet twice daily'',
     analysis = Some ''Antihypertensive'', question = ''Can I take this with food?'',
     followUp = [], loading = False, uploadComplete = True\<rparr>"

definition answer :: "string \<Rightarrow> gemini_data" where
  "answer a = GeminiData (Some [Candidate (Some (Content (Some [Part (Some a)])))])"

definition api_key :: "string option" where
  "api_key = Some ''k-123''"

section \<open>Auxiliary facts\<close>

lemma all_dropWhile: "(\<forall>x\<in>set (dropWhile P q). P x) = (\<forall>x\<in>set q. P x)"
  by (induction q) auto

lemma trim_empty_iff: "trim q = [] \<longleftrightarrow> (\<forall>c\<in>set q. is_space c)"
  by (simp add: trim_def all_dropWhile)

lemma length_build_prompt: "length (build_prompt t q) = length t + length q + 85"
  by (simp add: build_prompt_def)

lemma handleFileChange_cells:
  "text' (handleFileChange fs s) = Some []"
  "analysis (handleFileChange fs s) = Some []"
  "followUp (handleFileChange fs s) = []"
  "uploadComplete (handleFileChange fs s) = False"
  "loading (handleFileChange fs s) = loading s"
  "question (handleFileChange fs s) = question s"
  by (simp_all add: handleFileChange_def)

lemma handleUpload_finish_loading: "loading (fst (handleUpload_finish r s)) = False"
  by (cases r) (simp_all add: handleUpload_finish_def)

lemma askFollowUp_finish_loading: "loading (fst (askFollowUp_finish r s)) = False"
  by (cases r) (simp_all add: askFollowUp_finish_def)

text \<open>While \<open>loading\<close> is set, nothing the user does issues a request or clears the flag.\<close>

lemma step_while_loading:
  "loading s \<Longrightarrow> user_event e \<Longrightarrow> snd (step k e s) = [] \<and> loading (fst (step k e s))"
  by (cases e)
    (simp_all add: handleFileChange_def uploadButton_disabled_def askButton_disabled_def)

lemma run_while_loading:
  "loading s \<Longrightarrow> list_all user_event es \<Longrightarrow>
   snd (run k es s) = [] \<and> loading (fst (run k es s))"
proof (induction es arbitrary: s)
  case Nil
  then show ?case by simp
next
  case (Cons e es)
  obtain s1 out1 where st: "step k e s = (s1, out1)"
    by (cases "step k e s")
  from Cons.prems step_while_loading [of s e k] st
  have one: "out1 = []" "loading s1" by simp_all
  from Cons.prems have "list_all user_event es" by simp
  with Cons.IH [OF one(2)] have rest: "snd (run k es s1) = []" "loading (fst (run k es s1))"
    by simp_all
  obtain s2 out2 where rn: "run k es s1 = (s2, out2)"
    by (cases "run k es s1")
  with rest st one show ?case by simp
qed

section \<open>Single flight\<close>

text \<open>
  \<open>handleUpload\<close> tests only \<open>file\<close>.  Called again while its first \<open>fetch\<close> is pending
  (\<open>loading\<close> is set), it issues a second \<open>fetch\<close> for the same file.
\<close>

theorem handleUpload_twice_counterexample:
  "loading (fst (handleUpload_start selected)) \<and>
   snd (handleUpload_start selected) @ snd (handleUpload_start (fst (handleUpload_start selected)))
     = [Fetch (UploadReq pill_photo), Fetch (UploadReq pill_photo)]"
  by (simp add: handleUpload_start_def selected_def initial_def)

text \<open>
  C1, as the code has it.  The guard sits on the button, \<open>disabled={!file || loading}\<close>:
  with a file selected and nothing pending, a click on Upload issues one \<open>fetch\<close>, and
  whatever the user does after it and before a response settles (more clicks on either
  button, typing, selecting another file) issues no further request, so exactly one
  network call is made.  A second click changes nothing and reports nothing: there is no
  \<open>OperationInProgress\<close> error.
\<close>

theorem one_call_while_unresolved:
  assumes "file' s = Some f" and "\<not> loading s" and "list_all user_event es"
  shows "snd (run k (ClickUpload # es) s) = [Fetch (UploadReq f)]
    \<and> loading (fst (run k (ClickUpload # es) s))
    \<and> step k ClickUpload (fst (step k ClickUpload s)) = (fst (step k ClickUpload s), [])"
proof -
  let ?s1 = "s\<lparr>loading := True, uploadComplete := False\<rparr>"
  have st: "step k ClickUpload s = (?s1, [Fetch (UploadReq f)])"
    using assms(1,2) by (simp add: uploadButton_disabled_def handleUpload_start_def)
  have "loading ?s1" by simp
  from run_while_loading [OF this assms(3), of k]
  have rest: "snd (run k es ?s1) = []" "loading (fst (run k es ?s1))" by simp_all
  obtain s2 out2 where rn: "run k es ?s1 = (s2, out2)"
    by (cases "run k es ?s1")
  have again: "step k ClickUpload ?s1 = (?s1, [])"
    by (simp add: uploadButton_disabled_def)
  from st rn rest again show ?thesis by simp
qed

theorem one_call_while_unresolved_witness:
  "file' selected = Some pill_photo \<and> \<not> loading selected
   \<and> list_all user_event [ClickUpload, SelectFiles [leaflet_pdf], ClickUpload, ClickAsk]
   \<and> snd (run api_key
        [ClickUpload, ClickUpload, SelectFiles [leaflet_pdf], ClickUpload, ClickAsk] selected)
       = [Fetch (UploadReq pill_photo)]"
  using one_call_while_unresolved [of selected pill_photo
      "[ClickUpload, SelectFiles [leaflet_pdf], ClickUpload, ClickAsk]" api_key]
  by (simp add: selected_def initial_def)

section \<open>A response that arrives after a new document was selected\<close>

text \<open>
  A question is asked, a new file is selected while the request is pending, and then the
  answer arrives: it ends up in \<open>followUp\<close>.
\<close>

theorem stale_answer_counterexample:
  "run api_key
      [ClickAsk, SelectFiles [leaflet_pdf], FollowUpSettles (Parsed (answer ''Yes, with a meal.''))]
      analyzed
   = (analyzed\<lparr>file' := Some leaflet_pdf, text' := Some [], analysis := Some [],
        followUp := ''Yes, with a meal.'', uploadComplete := False\<rparr>,
      [Fetch (GenerateReq ''k-123''
         (build_prompt ''BP: take 1 tablet twice daily'' ''Can I take this with food?''))])"
  by (simp add: analyzed_def api_key_def askButton_disabled_def trim_def is_space_def
      askFollowUp_start_def truthy_def handleFileChange_def askFollowUp_finish_def
      reply_def reply_path_def answer_def)

text \<open>
  C2, as the code has it.  The second half of \<open>askFollowUp\<close> calls \<open>setFollowUp(reply)\<close>
  without looking at the state, so an answer that arrives after \<open>handleFileChange\<close> is
  stored in \<open>followUp\<close> all the same.  It is not rendered then, because \<open>handleFileChange\<close>
  emptied \<open>text\<close> and the results section is rendered only under \<open>text &&\<close>; and the next
  successful upload empties \<open>followUp\<close>.
\<close>

theorem stale_answer_stored_not_shown:
  "followUp (fst (askFollowUp_finish (Parsed d) (handleFileChange fs s))) = reply d
   \<and> \<not> followUp_shown (fst (askFollowUp_finish (Parsed d) (handleFileChange fs s)))
   \<and> followUp (fst (handleUpload_finish (Parsed u) s')) = []"
  by (simp add: askFollowUp_finish_def handleFileChange_def followUp_shown_def results_shown_def
      truthy_def handleUpload_finish_def)

theorem stale_answer_stored_not_shown_witness:
  "followUp (fst (askFollowUp_finish (Parsed (answer ''Yes, with a meal.''))
      (handleFileChange [leaflet_pdf] (fst (askFollowUp_start api_key analyzed)))))
     = ''Yes, with a meal.''"
  using stale_answer_stored_not_shown [of "answer ''Yes, with a meal.''" "[leaflet_pdf]"
      "fst (askFollowUp_start api_key analyzed)"]
  by (simp add: reply_def reply_path_def answer_def truthy_def)

section \<open>Validation of the question\<close>

text \<open>
  \<open>askFollowUp\<close> tests \<open>!question\<close>, and a string of three spaces is truthy: with extracted
  text present the handler goes on to the \<open>fetch\<close>.
\<close>

theorem blank_question_counterexample:
  "trim ''   '' = [] \<and>
   askFollowUp_start api_key (analyzed\<lparr>question := ''   ''\<rparr>)
     = (analyzed\<lparr>question := ''   '', loading := True\<rparr>,
        [Fetch (GenerateReq ''k-123'' (build_prompt ''BP: take 1 tablet twice daily'' ''   ''))])"
  by (simp add: trim_def is_space_def askFollowUp_start_def analyzed_def api_key_def truthy_def)

text \<open>
  C3, as the code has it.  With an empty question \<open>askFollowUp\<close> returns at once: the
  state is unchanged, no request is issued and nothing is reported (there is no
  \<open>InvalidQuestion\<close> error).  A question of whitespace only is stopped by the Ask button,
  \<open>disabled={!uploadComplete || !question.trim() || loading}\<close>: the click does nothing and
  issues no request.  (The empty question is whitespace only as well.)
\<close>

theorem blank_question_no_call:
  "(question s = [] \<longrightarrow> askFollowUp_start k s = (s, []))
   \<and> ((\<forall>c\<in>set (question s). is_space c) \<longrightarrow>
        askButton_disabled s \<and> step k ClickAsk s = (s, []))"
  by (simp add: askFollowUp_start_def askButton_disabled_def trim_empty_iff)

theorem blank_question_no_call_witness:
  "askFollowUp_start api_key (analyzed\<lparr>question := []\<rparr>) = (analyzed\<lparr>question := []\<rparr>, [])
   \<and> list_all is_space (question (analyzed\<lparr>question := ''   ''\<rparr>))
   \<and> step api_key ClickAsk (analyzed\<lparr>question := ''   ''\<rparr>)
       = (analyzed\<lparr>question := ''   ''\<rparr>, [])"
  using blank_question_no_call [of "analyzed\<lparr>question := []\<rparr>" api_key]
    blank_question_no_call [of "analyzed\<lparr>question := ''   ''\<rparr>" api_key]
  by (simp add: is_space_def)

section \<open>Selecting a new document\<close>

text \<open>
  C4.  In the \<open>Analyzed\<close> phase, and in the state a failed upload or a failed follow-up
  leaves behind, \<open>handleFileChange\<close> brings the session to \<open>Idle\<close> and empties the
  extracted text, the analysis and the follow-up answer.
\<close>

theorem new_document_resets:
  assumes "sessionPhase s = Analyzed
     \<or> (failed r \<and> s = fst (handleUpload_finish r s0))
     \<or> (failed r' \<and> s = fst (askFollowUp_finish r' s0'))"
  shows "sessionPhase (handleFileChange fs s) = Idle
     \<and> text' (handleFileChange fs s) = Some []
     \<and> analysis (handleFileChange fs s) = Some []
     \<and> followUp (handleFileChange fs s) = []"
proof -
  have "\<not> loading s"
    using assms handleUpload_finish_loading [of r s0] askFollowUp_finish_loading [of r' s0']
    by (auto simp: sessionPhase_def split: if_splits)
  then show ?thesis
    by (simp add: sessionPhase_def handleFileChange_cells)
qed

theorem new_document_resets_witness:
  "sessionPhase analyzed = Analyzed
   \<and> sessionPhase (handleFileChange [leaflet_pdf] analyzed) = Idle
   \<and> text' (handleFileChange [leaflet_pdf] analyzed) = Some []
   \<and> analysis (handleFileChange [leaflet_pdf] analyzed) = Some []
   \<and> followUp (handleFileChange [leaflet_pdf] analyzed) = []
   \<and> failed (NotOk 500 ''down'' :: upload_data settled)
   \<and> sessionPhase (handleFileChange [leaflet_pdf]
         (fst (handleUpload_finish (NotOk 500 ''down'') (fst (handleUpload_start selected))))) = Idle"
  using new_document_resets [where s = analyzed and fs = "[leaflet_pdf]"]
    new_document_resets [where
      s = "fst (handleUpload_finish (NotOk 500 ''down'') (fst (handleUpload_start selected)))"
      and r = "NotOk 500 ''down''" and ?s0.0 = "fst (handleUpload_start selected)"
      and fs = "[leaflet_pdf]"]
  by (simp add: sessionPhase_def analyzed_def failed_def)

section \<open>Follow-up answers\<close>

text \<open>
  Two questions asked and answered in turn leave the state that the second one alone
  would leave, up to \<open>question\<close>: \<open>followUp\<close> is one string, and the first answer and
  both questions' pairing with their answers are gone.
\<close>

theorem second_answer_replaces_first_counterexample:
  "run api_key
      [ClickAsk, FollowUpSettles (Parsed (answer ''Yes, with a meal.'')),
       TypeQuestion ''Any side effects?'', ClickAsk, FollowUpSettles (Parsed (answer ''Dizziness.''))]
      analyzed
   = (analyzed\<lparr>question := ''Any side effects?'', followUp := ''Dizziness.''\<rparr>,
      [Fetch (GenerateReq ''k-123''
         (build_prompt ''BP: take 1 tablet twice daily'' ''Can I take this with food?'')),
       Fetch (GenerateReq ''k-123''
         (build_prompt ''BP: take 1 tablet twice daily'' ''Any side effects?''))])
   \<and> fst (run api_key
      [TypeQuestion ''Any side effects?'', ClickAsk, FollowUpSettles (Parsed (answer ''Dizziness.''))]
      analyzed)
     = analyzed\<lparr>question := ''Any side effects?'', followUp := ''Dizziness.''\<rparr>"
  by (simp add: analyzed_def api_key_def askButton_disabled_def trim_def is_space_def
      askFollowUp_start_def truthy_def askFollowUp_finish_def questionInput_disabled_def
      results_shown_def
      reply_def reply_path_def answer_def)

text \<open>
  C5, as the code has it.  A successful follow-up whose response carries a non-empty text
  sets \<open>followUp\<close> to exactly that text, clears \<open>loading\<close> and changes nothing else; the
  question is not stored with the answer.  A later successful follow-up replaces the
  answer: the state is the one it would be without the earlier exchange.
\<close>

theorem followUp_holds_latest_answer:
  assumes "reply_path d = Some a" and "a \<noteq> []"
  shows "askFollowUp_finish (Parsed d) s = (s\<lparr>followUp := a, loading := False\<rparr>, [])
    \<and> fst (askFollowUp_finish (Parsed d) (fst (askFollowUp_finish (Parsed d0) s)))
        = fst (askFollowUp_finish (Parsed d) s)"
  using assms by (simp add: askFollowUp_finish_def reply_def truthy_def)

theorem followUp_holds_latest_answer_witness:
  "reply_path (answer ''Dizziness.'') = Some ''Dizziness.'' \<and>
   askFollowUp_finish (Parsed (answer ''Dizziness.'')) analyzed
     = (analyzed\<lparr>followUp := ''Dizziness.'', loading := False\<rparr>, [])
   \<and> fst (askFollowUp_finish (Parsed (answer ''Dizziness.''))
        (fst (askFollowUp_finish (Parsed (answer ''Yes, with a meal.'')) analyzed)))
      = fst (askFollowUp_finish (Parsed (answer ''Dizziness.'')) analyzed)"
  using followUp_holds_latest_answer [of "answer ''Dizziness.''" "''Dizziness.''" analyzed
      "answer ''Yes, with a meal.''"]
  by (simp add: reply_path_def answer_def)

section \<open>Responses with missing fields\<close>

text \<open>
  An upload response without \<open>text\<close>: the handler stores \<open>undefined\<close> for it next to the
  analysis it did receive, sets \<open>uploadComplete\<close> and reports nothing.
\<close>

theorem missing_field_counterexample:
  "handleUpload_finish (Parsed (UploadData None (Some ''Antihypertensive'')))
     (selected\<lparr>loading := True\<rparr>)
   = (selected\<lparr>text' := None, analysis := Some ''Antihypertensive'', uploadComplete := True\<rparr>, [])"
  by (simp add: handleUpload_finish_def selected_def initial_def)

text \<open>
  C6, as the code has it.  The upload fails exactly when the \<open>fetch\<close> rejects, the status
  is not a success, or reading the body throws (it is not JSON, or it is \<open>null\<close>).  A
  failed upload shows one alert with the error's message, clears \<open>loading\<close> and does
  nothing else: no cell is written and no request is issued.  A parsed body is stored as
  it is, field by field, \<open>undefined\<close> for a field that is absent, and the upload counts
  as complete.
\<close>

theorem upload_fails_only_in_catch:
  "handleUpload_finish (Rejected m) s = (s\<lparr>loading := False\<rparr>, [Alert (''Upload failed: '' @ m)])
   \<and> handleUpload_finish (NotOk st body) s
       = (s\<lparr>loading := False\<rparr>, [Alert ''Upload failed: Upload failed''])
   \<and> handleUpload_finish (Unparsable m) s = (s\<lparr>loading := False\<rparr>, [Alert (''Upload failed: '' @ m)])
   \<and> (failed r \<longrightarrow>
        handleUpload_finish r s = (s\<lparr>loading := False\<rparr>, [Alert (''Upload failed: '' @ upload_error r)]))
   \<and> (failed r \<longleftrightarrow> (\<forall>d. r \<noteq> Parsed d))
   \<and> (snd (handleUpload_finish r s) \<noteq> [] \<longleftrightarrow> failed r)
   \<and> handleUpload_finish (Parsed (UploadData t a)) s
       = (s\<lparr>text' := t, analysis := a, followUp := [], uploadComplete := True, loading := False\<rparr>, [])"
  by (cases r) (simp_all add: handleUpload_finish_def failed_def upload_error_def)

theorem upload_fails_only_in_catch_witness:
  "failed (Unparsable ''Unexpected token'' :: upload_data settled)
   \<and> handleUpload_finish (Unparsable ''Unexpected token'') (selected\<lparr>loading := True\<rparr>)
       = (selected, [Alert ''Upload failed: Unexpected token''])
   \<and> handleUpload_finish (Parsed (UploadData (Some ''BP'') None)) selected
       = (selected\<lparr>text' := Some ''BP'', analysis := None, followUp := [],
            uploadComplete := True, loading := False\<rparr>, [])"
  using upload_fails_only_in_catch [of "''Unexpected token''" "selected\<lparr>loading := True\<rparr>" 0 "[]"
      "Unparsable ''Unexpected token''" "Some ''BP''" None]
    upload_fails_only_in_catch [of "''Unexpected token''" selected 0 "[]"
      "Unparsable ''Unexpected token''" "Some ''BP''" None]
  by (simp add: failed_def upload_error_def selected_def initial_def)

text \<open>
  A follow-up response without \<open>candidates\<close>: the handler stores the default answer and
  reports nothing.
\<close>

theorem missing_path_counterexample:
  "reply_path (GeminiData None) = None \<and>
   askFollowUp_finish (Parsed (GeminiData None)) (analyzed\<lparr>loading := True\<rparr>)
     = (analyzed\<lparr>followUp := ''No response received''\<rparr>, [])"
  by (simp add: askFollowUp_finish_def reply_def reply_path_def truthy_def no_response_def
      analyzed_def)

text \<open>
  C7, as the code has it.  When the path \<open>candidates[0].content.parts[0].text\<close> is absent
  from a parsed, non-null follow-up response, the handler does not fail: it stores the default
  answer \<open>No response received\<close> in \<open>followUp\<close>, clears \<open>loading\<close> and shows no alert.
\<close>

theorem missing_path_default_answer:
  "reply_path d = None \<Longrightarrow>
   askFollowUp_finish (Parsed d) s = (s\<lparr>followUp := ''No response received'', loading := False\<rparr>, [])"
  by (simp add: askFollowUp_finish_def reply_def truthy_def no_response_def)

theorem missing_path_default_answer_witness:
  "reply_path (GeminiData (Some [])) = None \<and>
   askFollowUp_finish (Parsed (GeminiData (Some []))) analyzed
     = (analyzed\<lparr>followUp := ''No response received'', loading := False\<rparr>, [])"
  using missing_path_default_answer [of "GeminiData (Some [])" analyzed]
  by (simp add: reply_path_def)

section \<open>The prompt\<close>

text \<open>
  A prompt of more than a hundred million characters is sent like any other: the handler
  compares its length with nothing.
\<close>

theorem huge_prompt_counterexample:
  "100000000 < length (build_prompt (replicate 100000000 CHR ''a'') ''Can I take this with food?'')
   \<and> askFollowUp_start api_key (analyzed\<lparr>text' := Some (replicate 100000000 CHR ''a'')\<rparr>)
     = (analyzed\<lparr>text' := Some (replicate 100000000 CHR ''a''), loading := True\<rparr>,
        [Fetch (GenerateReq ''k-123''
           (build_prompt (replicate 100000000 CHR ''a'') ''Can I take this with food?''))])"
  by (simp add: length_build_prompt askFollowUp_start_def analyzed_def api_key_def truthy_def)

text \<open>
  C8, as the code has it.  Past its guard and with an API key, \<open>askFollowUp\<close> sends one
  prompt that holds the stored extracted text and the question verbatim between fixed
  pieces, whatever their length: nothing is cut, and no size is checked (there is no
  \<open>PromptTooLarge\<close> error).
\<close>

theorem prompt_sent_whole:
  assumes "question s \<noteq> []" and "text' s = Some t" and "t \<noteq> []"
    and "k = Some key" and "key \<noteq> []"
  shows "snd (askFollowUp_start k s) = [Fetch (GenerateReq key (build_prompt t (question s)))]
    \<and> build_prompt t (question s)
        = ''The user uploaded this medicine content:'' @ [newline] @ t @ [newline]
            @ ''Now they ask: '' @ question s @ [newline] @ ''Give a clear medical answer.''
    \<and> length (build_prompt t (question s)) = length t + length (question s) + 85"
  using assms
  by (simp add: askFollowUp_start_def truthy_def length_build_prompt) (simp add: build_prompt_def)

theorem prompt_sent_whole_witness:
  "question analyzed \<noteq> [] \<and> text' analyzed = Some ''BP: take 1 tablet twice daily''
   \<and> snd (askFollowUp_start api_key analyzed)
      = [Fetch (GenerateReq ''k-123''
           (build_prompt ''BP: take 1 tablet twice daily'' ''Can I take this with food?''))]
   \<and> length (build_prompt ''BP: take 1 tablet twice daily'' ''Can I take this with food?'') = 140"
  using prompt_sent_whole [of analyzed "''BP: take 1 tablet twice daily''" api_key "''k-123''"]
  by (simp add: analyzed_def api_key_def)

section \<open>Failure of the upload\<close>

text \<open>
  An upload answered with status 503 leaves the very state the page had before the click,
  which is the \<open>Idle\<close> phase.  Nothing in the state says that a call failed or why: the
  same state and the same alert follow a rejected \<open>fetch\<close> whose message is
  \<open>Upload failed\<close>.
\<close>

theorem upload_failure_leaves_idle_counterexample:
  "handleUpload_finish (NotOk 503 ''busy'') (fst (handleUpload_start selected))
     = (selected, [Alert ''Upload failed: Upload failed''])
   \<and> sessionPhase (fst (handleUpload_finish (NotOk 503 ''busy'') (fst (handleUpload_start selected))))
       = Idle
   \<and> handleUpload_finish (NotOk 503 ''busy'') (fst (handleUpload_start selected))
       = handleUpload_finish (Rejected ''Upload failed'') (fst (handleUpload_start selected))"
  by (simp add: handleUpload_start_def handleUpload_finish_def upload_error_def sessionPhase_def
      selected_def initial_def)

text \<open>
  C9, as the code has it.  When the upload is answered with a non-success status, the
  handler shows the alert \<open>Upload failed: Upload failed\<close> and the session is back at rest
  in the \<open>Idle\<close> phase, with \<open>loading\<close> and \<open>uploadComplete\<close> false: no failed state and
  no kind of error is stored.  The selected file is the one it was, and the extracted
  text and the analysis are untouched too.  Whatever the state when such a response
  arrives, \<open>file\<close> is not written.
\<close>

theorem upload_failure_keeps_document:
  assumes "file' s = Some f"
  shows "file' (fst (handleUpload_finish (NotOk st body) (fst (handleUpload_start s)))) = Some f
    \<and> sessionPhase (fst (handleUpload_finish (NotOk st body) (fst (handleUpload_start s)))) = Idle
    \<and> snd (handleUpload_finish (NotOk st body) (fst (handleUpload_start s)))
        = [Alert ''Upload failed: Upload failed'']
    \<and> text' (fst (handleUpload_finish (NotOk st body) (fst (handleUpload_start s)))) = text' s
    \<and> analysis (fst (handleUpload_finish (NotOk st body) (fst (handleUpload_start s)))) = analysis s
    \<and> file' (fst (handleUpload_finish (NotOk st body) s')) = file' s'
    \<and> handleUpload_finish (NotOk st body) (fst (handleUpload_start s))
        = (s\<lparr>loading := False, uploadComplete := False\<rparr>, [Alert ''Upload failed: Upload failed''])"
  using assms
  by (simp add: handleUpload_start_def handleUpload_finish_def upload_error_def sessionPhase_def)

theorem upload_failure_keeps_document_witness:
  "file' selected = Some pill_photo
   \<and> file' (fst (handleUpload_finish (NotOk 503 ''busy'') (fst (handleUpload_start selected))))
       = Some pill_photo
   \<and> sessionPhase (fst (handleUpload_finish (NotOk 503 ''busy'') (fst (handleUpload_start selected))))
       = Idle
   \<and> snd (handleUpload_finish (NotOk 503 ''busy'') (fst (handleUpload_start selected)))
       = [Alert ''Upload failed: Upload failed'']"
  using upload_failure_keeps_document [of selected pill_photo 503 "''busy''" selected]
  by (simp add: selected_def initial_def sessionPhase_def)

section \<open>The loading flag\<close>

text \<open>
  C10.  \<open>handleUpload\<close> with a file selected, and \<open>askFollowUp\<close> past its guard, set
  \<open>loading\<close> before the \<open>fetch\<close> is issued; however the \<open>fetch\<close> settles (rejected, bad
  status, unreadable body or success) and whatever the state then, the handler ends with
  \<open>loading\<close> cleared.  Without an API key \<open>askFollowUp\<close> issues no \<open>fetch\<close> and ends
  with \<open>loading\<close> cleared at once.
\<close>

theorem loading_set_then_cleared:
  "(file' s = Some f \<longrightarrow>
      handleUpload_start s = (s\<lparr>loading := True, uploadComplete := False\<rparr>, [Fetch (UploadReq f)]))
   \<and> \<not> loading (fst (handleUpload_finish r s1))
   \<and> (question s \<noteq> [] \<and> truthy (text' s) \<and> truthy k \<longrightarrow>
        loading (fst (askFollowUp_start k s))
        \<and> snd (askFollowUp_start k s)
            = [Fetch (GenerateReq (the k) (build_prompt (the (text' s)) (question s)))])
   \<and> (question s \<noteq> [] \<and> truthy (text' s) \<and> \<not> truthy k \<longrightarrow>
        \<not> loading (fst (askFollowUp_start k s))
        \<and> snd (askFollowUp_start k s) = [Alert (''Follow-up failed: '' @ key_missing)])
   \<and> \<not> loading (fst (askFollowUp_finish r' s2))"
  by (simp add: handleUpload_start_def askFollowUp_start_def handleUpload_finish_loading
      askFollowUp_finish_loading)

theorem loading_set_then_cleared_witness:
  "file' selected = Some pill_photo
   \<and> loading (fst (handleUpload_start selected))
   \<and> \<not> loading (fst (handleUpload_finish (Rejected ''Failed to fetch'')
          (fst (handleUpload_start selected))))
   \<and> question analyzed \<noteq> [] \<and> truthy (text' analyzed) \<and> truthy api_key
   \<and> loading (fst (askFollowUp_start api_key analyzed))
   \<and> \<not> loading (fst (askFollowUp_start None analyzed))
   \<and> \<not> loading (fst (askFollowUp_finish (NotOk 429 ''quota'')
          (fst (askFollowUp_start api_key analyzed))))"
  using loading_set_then_cleared [of selected pill_photo "Rejected ''Failed to fetch''"
      "fst (handleUpload_start selected)" api_key "NotOk 429 ''quota''"
      "fst (askFollowUp_start api_key analyzed)"]
    loading_set_then_cleared [of analyzed pill_photo "Rejected ''Failed to fetch''"
      "fst (handleUpload_start selected)" api_key "NotOk 429 ''quota''"
      "fst (askFollowUp_start api_key analyzed)"]
    loading_set_then_cleared [of analyzed pill_photo "Rejected ''Failed to fetch''"
      "fst (handleUpload_start selected)" None "NotOk 429 ''quota''"
      "fst (askFollowUp_start api_key analyzed)"]
  by (simp add: selected_def initial_def analyzed_def api_key_def truthy_def)

end
